theory Spec2Isabelle
  imports Complex_Main
begin

section \<open>The always-on-top window module (alwaysontop/main.js)\<close>

text \<open>
  The module keeps three module-level variables (\<open>position\<close>, \<open>size\<close>, \<open>oldSize\<close>),
  answers one IPC channel and installs resize listeners on the always-on-top window.
  JavaScript numbers are modelled as reals: pixel coordinates and extents are integers
  far inside the range where double addition, subtraction and comparison are exact.
  The one place where a double could differ from the real it stands for is the
  arithmetic with \<open>16 / 9\<close> in the resize listener, which is taken here as exact
  (\<open>NaN\<close> and the infinities are not modelled).
\<close>

subsection \<open>Values that arrive over IPC\<close>

datatype jsval =
    Undefined
  | Null
  | Boolean bool
  | Number real
  | String string
  | Object "(string \<times> jsval) list"

datatype error = TypeError

text \<open>
  Property read \<open>v.k\<close>. Reading a property of \<open>undefined\<close> or \<open>null\<close> throws a
  TypeError; an object (its keys listed once each) answers with the property or
  \<open>undefined\<close>. The module reads only
  the names \<open>type\<close>, \<open>data\<close>, \<open>name\<close>, \<open>x\<close> and \<open>y\<close>, none of which exists on a boolean,
  a number or a string, so those answer \<open>undefined\<close>.
\<close>

fun get_prop :: "jsval \<Rightarrow> string \<Rightarrow> error + jsval" where
  "get_prop Undefined k = Inl TypeError"
| "get_prop Null k = Inl TypeError"
| "get_prop (Object kvs) k = Inr (case map_of kvs k of None \<Rightarrow> Undefined | Some v \<Rightarrow> v)"
| "get_prop v k = Inr Undefined"

fun is_number :: "jsval \<Rightarrow> bool" where
  "is_number (Number r) = True"
| "is_number v = False"

subsection \<open>Geometry\<close>

record point =
  x :: real
  y :: real

record rectangle = point +
  width :: real
  height :: real

record display =
  workArea :: rectangle

text \<open>\<open>Math.min(Math.max(windowRectangle.x, minX), maxX)\<close>, and the same on y.\<close>

definition positionWindowWithinScreenBoundaries :: "rectangle \<Rightarrow> rectangle \<Rightarrow> point" where
  "positionWindowWithinScreenBoundaries windowRectangle screenRectangle =
     (let minY = y screenRectangle;
          minX = x screenRectangle;
          maxY = y screenRectangle + height screenRectangle - height windowRectangle;
          maxX = x screenRectangle + width screenRectangle - width windowRectangle
      in \<lparr>x = min (max (x windowRectangle) minX) maxX,
          y = min (max (y windowRectangle) minY) maxY\<rparr>)"

subsection \<open>Module state\<close>

text \<open>
  \<open>position\<close> starts as the empty object and is replaced by \<open>{x, y}\<close> with whatever
  the message carried, so each coordinate is any value; a missing property reads as
  \<open>undefined\<close>. \<open>size\<close> starts as a copy of the constant \<open>SIZE\<close> of constants.js, which
  is a parameter here. \<open>oldSize\<close> is \<open>undefined\<close> until the first will-resize event.
\<close>

record stored_position =
  pos_x :: jsval
  pos_y :: jsval

record stored_size =
  size_width :: real
  size_height :: real

record module_state =
  position :: stored_position
  size_aot :: stored_size
  oldSize :: "(real \<times> real) option"

definition ASPECT_RATIO :: real where
  "ASPECT_RATIO = 16 / 9"

definition initial_state :: "stored_size \<Rightarrow> module_state" where
  "initial_state SIZE =
     \<lparr>position = \<lparr>pos_x = Undefined, pos_y = Undefined\<rparr>, size_aot = SIZE, oldSize = None\<rparr>"

subsection \<open>What the module asks of its surroundings\<close>

text \<open>
  \<open>os.platform()\<close>, and the three queries of \<open>electron.screen\<close> that \<open>getPosition\<close>
  makes. \<open>getDisplayMatching\<close> is tested for truthiness by the code, so it may answer
  nothing.
\<close>

record environment =
  platform :: string
  getDisplayMatching :: "rectangle \<Rightarrow> display option"
  getCursorScreenPoint :: point
  getDisplayNearestPoint :: "point \<Rightarrow> display"

text \<open>A BrowserWindow, as far as the resize listeners touch it.\<close>

record browser_window =
  getSize :: "real \<times> real"

definition setSize :: "browser_window \<Rightarrow> real \<Rightarrow> real \<Rightarrow> browser_window" where
  "setSize win w h = win\<lparr>getSize := (w, h)\<rparr>"

subsection \<open>getPosition\<close>

text \<open>The code after the \<open>if\<close>: the top right corner of the work area under the pointer.\<close>

definition getPosition_topRight :: "environment \<Rightarrow> module_state \<Rightarrow> point" where
  "getPosition_topRight env st =
     (let wa = workArea (getDisplayNearestPoint env (getCursorScreenPoint env))
      in \<lparr>x = x wa + width wa - size_width (size_aot st), y = y wa\<rparr>)"

definition getPosition :: "environment \<Rightarrow> module_state \<Rightarrow> point" where
  "getPosition env st =
     (case pos_x (position st) of
        Number px \<Rightarrow>
          (case pos_y (position st) of
             Number py \<Rightarrow>
               (if platform env = ''win32'' then
                  (let windowRectangle =
                         \<lparr>x = px, y = py,
                          width = size_width (size_aot st), height = size_height (size_aot st)\<rparr>
                   in case getDisplayMatching env windowRectangle of
                        Some matchingScreen \<Rightarrow>
                          positionWindowWithinScreenBoundaries windowRectangle
                            (workArea matchingScreen)
                      | None \<Rightarrow> \<lparr>x = px, y = py\<rparr>)
                else \<lparr>x = px, y = py\<rparr>)
           | _ \<Rightarrow> getPosition_topRight env st)
      | _ \<Rightarrow> getPosition_topRight env st)"

subsection \<open>The IPC listener\<close>

definition bind_err :: "error + 'a \<Rightarrow> ('a \<Rightarrow> error + 'b) \<Rightarrow> error + 'b" where
  "bind_err m f = (case m of Inl e \<Rightarrow> Inl e | Inr v \<Rightarrow> f v)"

text \<open>\<open>type === 'event' && data.name === nm\<close>; \<open>data.name\<close> is read only for an event.\<close>

definition event_named :: "jsval \<Rightarrow> jsval \<Rightarrow> string \<Rightarrow> error + bool" where
  "event_named ty data nm =
     (if ty = String ''event''
      then bind_err (get_prop data ''name'') (\<lambda>n. Inr (n = String nm))
      else Inr False)"

text \<open>
  The listener destructures \<open>{ type, data = {} }\<close> from the message (the default is
  taken for \<open>undefined\<close> only), then runs its two \<open>if\<close> statements in order.
\<close>

definition ipc_listener :: "stored_size \<Rightarrow> module_state \<Rightarrow> jsval \<Rightarrow> error + module_state" where
  "ipc_listener SIZE st msg =
     bind_err (get_prop msg ''type'') (\<lambda>ty.
     bind_err (get_prop msg ''data'') (\<lambda>d.
       let data = (if d = Undefined then Object [] else d) in
       bind_err (event_named ty data ''position'') (\<lambda>is_position.
       bind_err
         (if is_position
          then bind_err (get_prop data ''x'') (\<lambda>vx.
               bind_err (get_prop data ''y'') (\<lambda>vy.
                 Inr (st\<lparr>position := \<lparr>pos_x = vx, pos_y = vy\<rparr>\<rparr>)))
          else Inr st) (\<lambda>st1.
       bind_err (event_named ty data ''resetSize'') (\<lambda>is_reset.
         Inr (if is_reset then st1\<lparr>size_aot := SIZE\<rparr> else st1))))))"

text \<open>
  A listener that throws has changed nothing (the only throwing reads come before the
  first assignment), and the next message is handled from the same state.
\<close>

definition handle_message :: "stored_size \<Rightarrow> module_state \<Rightarrow> jsval \<Rightarrow> module_state" where
  "handle_message SIZE st msg =
     (case ipc_listener SIZE st msg of Inl e \<Rightarrow> st | Inr st' \<Rightarrow> st')"

definition handle_messages :: "stored_size \<Rightarrow> module_state \<Rightarrow> jsval list \<Rightarrow> module_state" where
  "handle_messages SIZE st msgs = foldl (handle_message SIZE) st msgs"

text \<open>The two shapes a stored position is meant to have, and the one it is not.\<close>

definition fully_populated :: "stored_position \<Rightarrow> bool" where
  "fully_populated p = (is_number (pos_x p) \<and> is_number (pos_y p))"

definition fully_empty :: "stored_position \<Rightarrow> bool" where
  "fully_empty p = (pos_x p = Undefined \<and> pos_y p = Undefined)"

definition one_coordinate_only :: "stored_position \<Rightarrow> bool" where
  "one_coordinate_only p = (is_number (pos_x p) \<noteq> is_number (pos_y p))"

text \<open>
  A message is a position event when both tests of the first \<open>if\<close> succeed; it has the
  documented shape when its \<open>x\<close> and \<open>y\<close> are numbers.
\<close>

definition is_position_event :: "jsval \<Rightarrow> bool" where
  "is_position_event msg =
     (case get_prop msg ''type'' of
        Inl e \<Rightarrow> False
      | Inr ty \<Rightarrow>
          (case get_prop msg ''data'' of
             Inl e \<Rightarrow> False
           | Inr d \<Rightarrow>
               event_named ty (if d = Undefined then Object [] else d) ''position''
                 = Inr True))"

definition numeric_coordinates :: "jsval \<Rightarrow> bool" where
  "numeric_coordinates msg =
     (case get_prop msg ''data'' of
        Inl e \<Rightarrow> False
      | Inr d \<Rightarrow>
          (case get_prop (if d = Undefined then Object [] else d) ''x'' of
             Inl e \<Rightarrow> False
           | Inr vx \<Rightarrow>
               (case get_prop (if d = Undefined then Object [] else d) ''y'' of
                  Inl e \<Rightarrow> False
                | Inr vy \<Rightarrow> is_number vx \<and> is_number vy)))"

definition well_shaped :: "jsval \<Rightarrow> bool" where
  "well_shaped msg = (if is_position_event msg then numeric_coordinates msg else True)"

text \<open>
  A message is a reset event when both tests of the second \<open>if\<close> succeed. The listener
  throws on a message that is \<open>undefined\<close> or \<open>null\<close> (the destructuring), and on an
  event whose \<open>data\<close> is \<open>null\<close> (the read of \<open>data.name\<close>).
\<close>

definition is_reset_event :: "jsval \<Rightarrow> bool" where
  "is_reset_event msg =
     (case get_prop msg ''type'' of
        Inl e \<Rightarrow> False
      | Inr ty \<Rightarrow>
          (case get_prop msg ''data'' of
             Inl e \<Rightarrow> False
           | Inr d \<Rightarrow>
               event_named ty (if d = Undefined then Object [] else d) ''resetSize''
                 = Inr True))"

definition listener_throws :: "jsval \<Rightarrow> bool" where
  "listener_throws msg =
     (msg = Undefined \<or> msg = Null
      \<or> (get_prop msg ''type'' = Inr (String ''event'') \<and> get_prop msg ''data'' = Inr Null))"

subsection \<open>The resize listeners\<close>

text \<open>\<open>Math.round\<close>: the nearest integer, a tie going up.\<close>

definition Math_round :: "real \<Rightarrow> real" where
  "Math_round v = of_int \<lfloor>v + 1 / 2\<rfloor>"

text \<open>
  The will-resize listener of the else branch. It answers the new module state and
  whether \<open>e.preventDefault()\<close> was called. \<open>mousePos\<close> is \<open>robot.getMousePos()\<close>.
\<close>

definition will_resize_listener ::
  "module_state \<Rightarrow> browser_window \<Rightarrow> point \<Rightarrow> rectangle \<Rightarrow> module_state \<times> bool" where
  "will_resize_listener st win mousePos newBounds =
     (let st' = st\<lparr>oldSize := Some (getSize win)\<rparr>;
          windowBottomRightPos =
            \<lparr>x = x newBounds + width newBounds - 16,
             y = y newBounds + height newBounds - 16\<rparr>
      in (st', x mousePos \<ge> x windowBottomRightPos \<and> y mousePos \<ge> y windowBottomRightPos))"

text \<open>
  The resize listener of the else branch. \<open>oldSize[0]\<close> throws while \<open>oldSize\<close> is
  \<open>undefined\<close>.
\<close>

definition resize_listener ::
  "real \<Rightarrow> module_state \<Rightarrow> browser_window \<Rightarrow> error + module_state \<times> browser_window" where
  "resize_listener aspectRatio st win =
     (case getSize win of
        (width0, height0) \<Rightarrow>
          (case oldSize st of
             None \<Rightarrow> Inl TypeError
           | Some old \<Rightarrow>
               (let (width1, height1) =
                      (if \<bar>fst old - width0\<bar> \<ge> \<bar>snd old - height0\<bar>
                       then (width0, Math_round (width0 / aspectRatio))
                       else (Math_round (height0 * aspectRatio), height0))
                in Inr (st\<lparr>size_aot := \<lparr>size_width = width1, size_height = height1\<rparr>\<rparr>,
                        setSize win width1 height1))))"

text \<open>The resize listener of the Darwin branch: it records the size and no more.\<close>

definition resize_listener_darwin :: "module_state \<Rightarrow> browser_window \<Rightarrow> module_state" where
  "resize_listener_darwin st win =
     (case getSize win of
        (width0, height0) \<Rightarrow> st\<lparr>size_aot := \<lparr>size_width = width0, size_height = height0\<rparr>\<rparr>)"

text \<open>
  \<open>setAspectRatioToResizeableWindow\<close> installs the listeners according to \<open>os.type()\<close>;
  these are the events as a window set up under \<open>os_type\<close> handles them. On Darwin there
  is no will-resize listener.
\<close>

definition on_will_resize ::
  "string \<Rightarrow> module_state \<Rightarrow> browser_window \<Rightarrow> point \<Rightarrow> rectangle \<Rightarrow> module_state \<times> bool" where
  "on_will_resize os_type st win mousePos newBounds =
     (if os_type = ''Darwin'' then (st, False)
      else will_resize_listener st win mousePos newBounds)"

definition on_resize ::
  "string \<Rightarrow> real \<Rightarrow> module_state \<Rightarrow> browser_window
     \<Rightarrow> error + module_state \<times> browser_window" where
  "on_resize os_type aspectRatio st win =
     (if os_type = ''Darwin'' then Inr (resize_listener_darwin st win, win)
      else resize_listener aspectRatio st win)"

section \<open>Clamping a window into a screen\<close>

text \<open>
  C1, as the code has it. Where the window is strictly wider (taller) than the screen,
  the upper bound lies below the lower bound, and \<open>min (max v lo) hi\<close> then answers the
  upper bound: the returned coordinate is screen origin + screen extent - window
  extent, which puts the window's far edge on the screen's far edge.
\<close>

theorem clamp_oversized_returns_max:
  "(width screenRectangle < width windowRectangle \<longrightarrow>
      x (positionWindowWithinScreenBoundaries windowRectangle screenRectangle)
        = x screenRectangle + width screenRectangle - width windowRectangle)
   \<and> (height screenRectangle < height windowRectangle \<longrightarrow>
      y (positionWindowWithinScreenBoundaries windowRectangle screenRectangle)
        = y screenRectangle + height screenRectangle - height windowRectangle)"
  by (simp add: positionWindowWithinScreenBoundaries_def Let_def min_def max_def)

theorem clamp_oversized_returns_max_witness:
  "width \<lparr>x = 0, y = 0, width = 100, height = 100\<rparr>
     < width \<lparr>x = 0, y = 0, width = 200, height = 150\<rparr>
   \<and> height \<lparr>x = 0, y = 0, width = 100, height = 100\<rparr>
     < height \<lparr>x = 0, y = 0, width = 200, height = 150\<rparr>
   \<and> positionWindowWithinScreenBoundaries
       \<lparr>x = 0, y = 0, width = 200, height = 150\<rparr>
       \<lparr>x = 0, y = 0, width = 100, height = 100\<rparr> = \<lparr>x = - 100, y = - 50\<rparr>"
  using clamp_oversized_returns_max
    [of "\<lparr>x = 0, y = 0, width = 100, height = 100\<rparr>"
        "\<lparr>x = 0, y = 0, width = 200, height = 150\<rparr>"]
  by (simp add: positionWindowWithinScreenBoundaries_def Let_def)

text \<open>
  C1, as the claim states it, fails: a 200 pixel wide window on a 100 pixel wide screen
  at origin 0 is placed at x = -100, not at the screen's origin.
\<close>

theorem clamp_oversized_counterexample:
  "x (positionWindowWithinScreenBoundaries
        \<lparr>x = 0, y = 0, width = 200, height = 100\<rparr>
        \<lparr>x = 0, y = 0, width = 100, height = 100\<rparr>) = - 100
   \<and> x (positionWindowWithinScreenBoundaries
        \<lparr>x = 0, y = 0, width = 200, height = 100\<rparr>
        \<lparr>x = 0, y = 0, width = 100, height = 100\<rparr>)
      \<noteq> x \<lparr>x = 0, y = 0, width = 100, height = 100\<rparr>"
  by (simp add: positionWindowWithinScreenBoundaries_def Let_def)

text \<open>
  C4. When the window is no larger than the screen on either axis, the returned
  position together with the window's extents is a rectangle inside the screen.
\<close>

theorem clamp_containment:
  assumes "width windowRectangle \<le> width screenRectangle"
    and "height windowRectangle \<le> height screenRectangle"
  shows "x screenRectangle
           \<le> x (positionWindowWithinScreenBoundaries windowRectangle screenRectangle)
       \<and> x (positionWindowWithinScreenBoundaries windowRectangle screenRectangle)
             + width windowRectangle
           \<le> x screenRectangle + width screenRectangle
       \<and> y screenRectangle
           \<le> y (positionWindowWithinScreenBoundaries windowRectangle screenRectangle)
       \<and> y (positionWindowWithinScreenBoundaries windowRectangle screenRectangle)
             + height windowRectangle
           \<le> y screenRectangle + height screenRectangle"
  using assms
  by (simp add: positionWindowWithinScreenBoundaries_def Let_def min_def max_def)

theorem clamp_containment_witness:
  "positionWindowWithinScreenBoundaries
       \<lparr>x = 1800, y = - 40, width = 320, height = 180\<rparr>
       \<lparr>x = 0, y = 0, width = 1920, height = 1080\<rparr> = \<lparr>x = 1600, y = 0\<rparr>
   \<and> (0::real) \<le> 1600 \<and> (1600::real) + 320 \<le> 0 + 1920
   \<and> (0::real) \<le> 0 \<and> (0::real) + 180 \<le> 0 + 1080"
  using clamp_containment
    [of "\<lparr>x = 1800, y = - 40, width = 320, height = 180\<rparr>"
        "\<lparr>x = 0, y = 0, width = 1920, height = 1080\<rparr>"]
  by (simp add: positionWindowWithinScreenBoundaries_def Let_def)

text \<open>
  C8. A window that already lies inside the screen on both axes keeps its position.
\<close>

theorem clamp_identity_when_inside:
  assumes "x screenRectangle \<le> x windowRectangle"
    and "x windowRectangle + width windowRectangle
           \<le> x screenRectangle + width screenRectangle"
    and "y screenRectangle \<le> y windowRectangle"
    and "y windowRectangle + height windowRectangle
           \<le> y screenRectangle + height screenRectangle"
  shows "positionWindowWithinScreenBoundaries windowRectangle screenRectangle
           = \<lparr>x = x windowRectangle, y = y windowRectangle\<rparr>"
  using assms
  by (simp add: positionWindowWithinScreenBoundaries_def Let_def min_def max_def)

theorem clamp_identity_when_inside_witness:
  "positionWindowWithinScreenBoundaries
       \<lparr>x = 100, y = 50, width = 320, height = 180\<rparr>
       \<lparr>x = 0, y = 0, width = 1920, height = 1080\<rparr> = \<lparr>x = 100, y = 50\<rparr>"
  using clamp_identity_when_inside
    [of "\<lparr>x = 0, y = 0, width = 1920, height = 1080\<rparr>"
        "\<lparr>x = 100, y = 50, width = 320, height = 180\<rparr>"]
  by simp

section \<open>The stored position under a sequence of messages\<close>

text \<open>
  One message whose position event, if it is one, carries two numbers keeps the stored
  position in one of its two intended shapes; so does any list of such messages.
\<close>

lemma position_shape_step:
  assumes "well_shaped m"
    and "fully_populated (position st) \<or> fully_empty (position st)"
  shows "fully_populated (position (handle_message SIZE st m))
         \<or> fully_empty (position (handle_message SIZE st m))"
  using assms
  by (auto simp: handle_message_def ipc_listener_def bind_err_def event_named_def
        well_shaped_def is_position_event_def numeric_coordinates_def
        fully_populated_def fully_empty_def Let_def
      split: sum.splits if_splits)

lemma position_shape_messages:
  assumes "\<forall>m \<in> set msgs. well_shaped m"
    and "fully_populated (position st) \<or> fully_empty (position st)"
  shows "fully_populated (position (handle_messages SIZE st msgs))
         \<or> fully_empty (position (handle_messages SIZE st msgs))"
  using assms
proof (induction msgs arbitrary: st)
  case Nil
  then show ?case by (simp add: handle_messages_def)
next
  case (Cons m msgs)
  from Cons.prems have shaped: "well_shaped m" by simp
  from shaped Cons.prems(2)
  have step: "fully_populated (position (handle_message SIZE st m))
              \<or> fully_empty (position (handle_message SIZE st m))"
    by (rule position_shape_step)
  from Cons.prems have rest: "\<forall>m \<in> set msgs. well_shaped m" by simp
  have "handle_messages SIZE st (m # msgs)
          = handle_messages SIZE (handle_message SIZE st m) msgs"
    by (simp add: handle_messages_def)
  with Cons.IH [OF rest step] show ?case by simp
qed

lemma populated_or_empty_not_one:
  "fully_populated p \<or> fully_empty p \<Longrightarrow> \<not> one_coordinate_only p"
  by (auto simp: fully_populated_def fully_empty_def one_coordinate_only_def)

text \<open>
  C2, as the claim states it, fails: the listener stores whatever the message carries.
  A position event with a numeric x and no y, sent to the module in its initial state,
  leaves the stored position with exactly one numeric coordinate.
\<close>

theorem position_shape_counterexample:
  "one_coordinate_only
     (position (handle_messages \<lparr>size_width = 320, size_height = 180\<rparr>
        (initial_state \<lparr>size_width = 320, size_height = 180\<rparr>)
        [Object [(''type'', String ''event''),
                 (''data'', Object [(''name'', String ''position''), (''x'', Number 5)])]]))
   \<and> position (handle_messages \<lparr>size_width = 320, size_height = 180\<rparr>
        (initial_state \<lparr>size_width = 320, size_height = 180\<rparr>)
        [Object [(''type'', String ''event''),
                 (''data'', Object [(''name'', String ''position''), (''x'', Number 5)])]])
      = \<lparr>pos_x = Number 5, pos_y = Undefined\<rparr>"
  by (simp add: handle_messages_def handle_message_def ipc_listener_def bind_err_def
        event_named_def initial_state_def one_coordinate_only_def)

text \<open>
  C2, as the code has it. Starting from the module's initial state, after any sequence
  of inbound messages in which every position event carries a numeric x and a numeric
  y, the stored position is either fully populated or fully empty, never one numeric
  coordinate only. (The reader \<open>getPosition\<close> tests both coordinates, so a half
  filled position is treated there as no position.)
\<close>

theorem position_shape_well_shaped_messages:
  assumes "\<forall>m \<in> set msgs. well_shaped m"
  shows "(fully_populated (position (handle_messages SIZE (initial_state SIZE) msgs))
          \<or> fully_empty (position (handle_messages SIZE (initial_state SIZE) msgs)))
       \<and> \<not> one_coordinate_only (position (handle_messages SIZE (initial_state SIZE) msgs))"
proof -
  have "fully_empty (position (initial_state SIZE))"
    by (simp add: fully_empty_def initial_state_def)
  then have "fully_populated (position (initial_state SIZE))
             \<or> fully_empty (position (initial_state SIZE))" ..
  with assms
  have "fully_populated (position (handle_messages SIZE (initial_state SIZE) msgs))
        \<or> fully_empty (position (handle_messages SIZE (initial_state SIZE) msgs))"
    by (rule position_shape_messages)
  then show ?thesis by (simp add: populated_or_empty_not_one)
qed

theorem position_shape_well_shaped_messages_witness:
  "well_shaped (Object [(''type'', String ''event''),
       (''data'', Object [(''name'', String ''position''), (''x'', Number 50), (''y'', Number 60)])])
   \<and> well_shaped (Object [(''type'', String ''event''),
       (''data'', Object [(''name'', String ''resetSize'')])])
   \<and> well_shaped (Number 3)
   \<and> fully_populated
       (position (handle_messages \<lparr>size_width = 320, size_height = 180\<rparr>
          (initial_state \<lparr>size_width = 320, size_height = 180\<rparr>)
          [Object [(''type'', String ''event''),
             (''data'', Object [(''name'', String ''position''), (''x'', Number 50), (''y'', Number 60)])],
           Object [(''type'', String ''event''),
             (''data'', Object [(''name'', String ''resetSize'')])],
           Number 3]))
   \<and> \<not> one_coordinate_only
       (position (handle_messages \<lparr>size_width = 320, size_height = 180\<rparr>
          (initial_state \<lparr>size_width = 320, size_height = 180\<rparr>)
          [Object [(''type'', String ''event''),
             (''data'', Object [(''name'', String ''position''), (''x'', Number 50), (''y'', Number 60)])],
           Object [(''type'', String ''event''),
             (''data'', Object [(''name'', String ''resetSize'')])],
           Number 3]))"
  using position_shape_well_shaped_messages
    [of "[Object [(''type'', String ''event''),
             (''data'', Object [(''name'', String ''position''), (''x'', Number 50), (''y'', Number 60)])],
           Object [(''type'', String ''event''),
             (''data'', Object [(''name'', String ''resetSize'')])],
           Number 3]" "\<lparr>size_width = 320, size_height = 180\<rparr>"]
  by (simp add: well_shaped_def is_position_event_def numeric_coordinates_def
        event_named_def bind_err_def handle_messages_def handle_message_def
        ipc_listener_def initial_state_def fully_populated_def)

section \<open>Messages the listener does not know\<close>

text \<open>A property read throws on \<open>undefined\<close> and \<open>null\<close> and on nothing else.\<close>

lemma get_prop_throws_iff:
  "(get_prop v k = Inl e) = (v = Undefined \<or> v = Null)"
  by (cases v; cases e) simp_all

text \<open>
  Where \<open>type\<close>, \<open>data\<close> and \<open>data.name\<close> can be read, a message is neither of the two
  known events exactly when its \<open>type\<close> is not \<open>'event'\<close> or its \<open>data.name\<close> is neither
  \<open>'position'\<close> nor \<open>'resetSize'\<close>.
\<close>

lemma unknown_message_iff:
  assumes "get_prop msg ''type'' = Inr ty"
    and "get_prop msg ''data'' = Inr d"
    and "get_prop (if d = Undefined then Object [] else d) ''name'' = Inr n"
  shows "(\<not> is_position_event msg \<and> \<not> is_reset_event msg)
           = (ty \<noteq> String ''event''
              \<or> (n \<noteq> String ''position'' \<and> n \<noteq> String ''resetSize''))"
  using assms
  by (auto simp: is_position_event_def is_reset_event_def event_named_def bind_err_def)

text \<open>
  C9, as the claim states it, fails: an event whose \<open>data\<close> is \<open>null\<close> is neither a
  position event nor a reset event, and the listener raises a TypeError on it (the
  default \<open>{}\<close> stands in for \<open>undefined\<close> only, so \<open>data.name\<close> is read from \<open>null\<close>).
\<close>

theorem other_messages_counterexample:
  "\<not> is_position_event (Object [(''type'', String ''event''), (''data'', Null)])
   \<and> \<not> is_reset_event (Object [(''type'', String ''event''), (''data'', Null)])
   \<and> ipc_listener \<lparr>size_width = 320, size_height = 180\<rparr> (initial_state \<lparr>size_width = 320, size_height = 180\<rparr>) (Object [(''type'', String ''event''), (''data'', Null)]) = Inl TypeError"
  by (simp add: is_position_event_def is_reset_event_def ipc_listener_def bind_err_def
        event_named_def)

text \<open>
  C9, as the code has it. Every message that is neither a position event nor a reset
  event (one whose \<open>type\<close> is not \<open>'event'\<close>, or whose \<open>data.name\<close> is neither
  \<open>'position'\<close> nor \<open>'resetSize'\<close>, or from which these cannot be read) leaves the module
  state, stored position and stored size included, exactly as it was. No error is
  raised, unless the message is \<open>undefined\<close> or \<open>null\<close>, or is an event whose \<open>data\<close> is
  \<open>null\<close>: on those, and only those, the listener throws a TypeError, before any
  assignment.
\<close>

theorem other_messages_leave_state:
  assumes "\<not> is_position_event msg"
    and "\<not> is_reset_event msg"
  shows "handle_message SIZE st msg = st
       \<and> position (handle_message SIZE st msg) = position st
       \<and> size_aot (handle_message SIZE st msg) = size_aot st
       \<and> ipc_listener SIZE st msg
           = (if listener_throws msg then Inl TypeError else Inr st)"
proof -
  have listener: "ipc_listener SIZE st msg
                    = (if listener_throws msg then Inl TypeError else Inr st)"
  proof (cases msg)
    case (Object kvs)
    with assms show ?thesis
      by (auto simp: ipc_listener_def bind_err_def event_named_def Let_def
            is_position_event_def is_reset_event_def listener_throws_def
            get_prop_throws_iff
          split: sum.splits if_splits)
  qed (simp_all add: ipc_listener_def bind_err_def event_named_def listener_throws_def)
  then have "handle_message SIZE st msg = st"
    by (simp add: handle_message_def)
  with listener show ?thesis by simp
qed

theorem other_messages_leave_state_witness:
  "ipc_listener \<lparr>size_width = 320, size_height = 180\<rparr> (initial_state \<lparr>size_width = 320, size_height = 180\<rparr>)
      (Object [(''type'', String ''command''),
               (''data'', Object [(''name'', String ''position''),
                                  (''x'', Number 1), (''y'', Number 2)])])
     = Inr (initial_state \<lparr>size_width = 320, size_height = 180\<rparr>)
   \<and> ipc_listener \<lparr>size_width = 320, size_height = 180\<rparr> (initial_state \<lparr>size_width = 320, size_height = 180\<rparr>)
      (Object [(''type'', String ''event''), (''data'', Object [(''name'', String ''move'')])])
     = Inr (initial_state \<lparr>size_width = 320, size_height = 180\<rparr>)
   \<and> ipc_listener \<lparr>size_width = 320, size_height = 180\<rparr> (initial_state \<lparr>size_width = 320, size_height = 180\<rparr>) (Number 7) = Inr (initial_state \<lparr>size_width = 320, size_height = 180\<rparr>)
   \<and> ipc_listener \<lparr>size_width = 320, size_height = 180\<rparr> (initial_state \<lparr>size_width = 320, size_height = 180\<rparr>) Null = Inl TypeError
   \<and> handle_message \<lparr>size_width = 320, size_height = 180\<rparr> (initial_state \<lparr>size_width = 320, size_height = 180\<rparr>) Null = initial_state \<lparr>size_width = 320, size_height = 180\<rparr>
   \<and> handle_message \<lparr>size_width = 320, size_height = 180\<rparr> (initial_state \<lparr>size_width = 320, size_height = 180\<rparr>) (Object [(''type'', String ''event''), (''data'', Null)]) = initial_state \<lparr>size_width = 320, size_height = 180\<rparr>"
  using other_messages_leave_state
      [of "Object [(''type'', String ''command''),
               (''data'', Object [(''name'', String ''position''),
                                  (''x'', Number 1), (''y'', Number 2)])]" "\<lparr>size_width = 320, size_height = 180\<rparr>" "initial_state \<lparr>size_width = 320, size_height = 180\<rparr>"]
    other_messages_leave_state
      [of "Object [(''type'', String ''event''), (''data'', Object [(''name'', String ''move'')])]" "\<lparr>size_width = 320, size_height = 180\<rparr>" "initial_state \<lparr>size_width = 320, size_height = 180\<rparr>"]
    other_messages_leave_state [of "Number 7" "\<lparr>size_width = 320, size_height = 180\<rparr>" "initial_state \<lparr>size_width = 320, size_height = 180\<rparr>"]
    other_messages_leave_state [of Null "\<lparr>size_width = 320, size_height = 180\<rparr>" "initial_state \<lparr>size_width = 320, size_height = 180\<rparr>"]
    other_messages_leave_state
      [of "Object [(''type'', String ''event''), (''data'', Null)]" "\<lparr>size_width = 320, size_height = 180\<rparr>" "initial_state \<lparr>size_width = 320, size_height = 180\<rparr>"]
  by (simp add: is_position_event_def is_reset_event_def event_named_def bind_err_def
        listener_throws_def)

section \<open>Initial placement\<close>

text \<open>
  C6. With no stored position, \<open>getPosition\<close> answers
  \<open>{x: x + width - size.width, y}\<close> for the work area \<open>{x, y, width, _}\<close> of the display
  under the pointer: the window's top right corner lies on the work area's. The
  instance below is the one of the specification: work area \<open>{0, 0, 1920, 1080}\<close> and
  size \<open>{320, 180}\<close> give \<open>{1600, 0}\<close>.
\<close>

theorem getPosition_default_top_right:
  assumes "fully_empty (position st)"
  shows "getPosition env st
           = \<lparr>x = x (workArea (getDisplayNearestPoint env (getCursorScreenPoint env)))
                  + width (workArea (getDisplayNearestPoint env (getCursorScreenPoint env)))
                  - size_width (size_aot st),
              y = y (workArea (getDisplayNearestPoint env (getCursorScreenPoint env)))\<rparr>
       \<and> x (getPosition env st) + size_width (size_aot st)
           = x (workArea (getDisplayNearestPoint env (getCursorScreenPoint env)))
             + width (workArea (getDisplayNearestPoint env (getCursorScreenPoint env)))"
  using assms
  by (simp add: getPosition_def getPosition_topRight_def fully_empty_def Let_def)

theorem getPosition_default_top_right_witness:
  "fully_empty (position (initial_state \<lparr>size_width = 320, size_height = 180\<rparr>))
   \<and> getPosition
        \<lparr>platform = ''linux'', getDisplayMatching = (\<lambda>r. None),
         getCursorScreenPoint = \<lparr>x = 700, y = 400\<rparr>,
         getDisplayNearestPoint =
           (\<lambda>p. \<lparr>workArea = \<lparr>x = 0, y = 0, width = 1920, height = 1080\<rparr>\<rparr>)\<rparr>
        (initial_state \<lparr>size_width = 320, size_height = 180\<rparr>)
      = \<lparr>x = 1600, y = 0\<rparr>"
  using getPosition_default_top_right
      [of "initial_state \<lparr>size_width = 320, size_height = 180\<rparr>"
          "\<lparr>platform = ''linux'', getDisplayMatching = (\<lambda>r. None),
            getCursorScreenPoint = \<lparr>x = 700, y = 400\<rparr>,
            getDisplayNearestPoint =
              (\<lambda>p. \<lparr>workArea = \<lparr>x = 0, y = 0, width = 1920, height = 1080\<rparr>\<rparr>)\<rparr>"]
  by (simp add: initial_state_def fully_empty_def)

text \<open>
  C7. On a platform other than win32, after the listener handled the position event
  with numbers \<open>px\<close> and \<open>py\<close>, \<open>getPosition\<close> answers exactly \<open>{px, py}\<close>, whatever
  the state before and whatever the screens.
\<close>

theorem position_event_then_getPosition:
  assumes "platform env \<noteq> ''win32''"
  shows "ipc_listener SIZE st
           (Object [(''type'', String ''event''),
                    (''data'', Object [(''name'', String ''position''),
                                       (''x'', Number px), (''y'', Number py)])])
           = Inr (st\<lparr>position := \<lparr>pos_x = Number px, pos_y = Number py\<rparr>\<rparr>)
       \<and> getPosition env
           (handle_message SIZE st
              (Object [(''type'', String ''event''),
                       (''data'', Object [(''name'', String ''position''),
                                          (''x'', Number px), (''y'', Number py)])]))
           = \<lparr>x = px, y = py\<rparr>"
  using assms
  by (simp add: ipc_listener_def handle_message_def bind_err_def event_named_def
        getPosition_def)

theorem position_event_then_getPosition_witness:
  "getPosition
      \<lparr>platform = ''linux'', getDisplayMatching = (\<lambda>r. None),
       getCursorScreenPoint = \<lparr>x = 700, y = 400\<rparr>,
       getDisplayNearestPoint =
         (\<lambda>p. \<lparr>workArea = \<lparr>x = 0, y = 0, width = 1920, height = 1080\<rparr>\<rparr>)\<rparr>
      (handle_message \<lparr>size_width = 320, size_height = 180\<rparr>
         (initial_state \<lparr>size_width = 320, size_height = 180\<rparr>)
         (Object [(''type'', String ''event''),
                  (''data'', Object [(''name'', String ''position''),
                                     (''x'', Number 50), (''y'', Number 60)])]))
     = \<lparr>x = 50, y = 60\<rparr>"
  using position_event_then_getPosition
      [of "\<lparr>platform = ''linux'', getDisplayMatching = (\<lambda>r. None),
            getCursorScreenPoint = \<lparr>x = 700, y = 400\<rparr>,
            getDisplayNearestPoint =
              (\<lambda>p. \<lparr>workArea = \<lparr>x = 0, y = 0, width = 1920, height = 1080\<rparr>\<rparr>)\<rparr>"
          "\<lparr>size_width = 320, size_height = 180\<rparr>"
          "initial_state \<lparr>size_width = 320, size_height = 180\<rparr>" 50 60]
  by simp

section \<open>Resizing on the manual path\<close>

text \<open>
  C3. On a window set up on a system other than Darwin, with previous size
  \<open>(oldW, oldH)\<close> and the size \<open>(w, h)\<close> the toolkit applied: when the width changed
  strictly more, the corrected size is \<open>(w, round (w / (16/9)))\<close>; when the height
  changed strictly more, it is \<open>(round (h * (16/9)), h)\<close>. The corrected size is set on
  the window and stored in \<open>size\<close>.
\<close>

theorem resize_keeps_aspect_ratio:
  assumes "os_type \<noteq> ''Darwin''"
    and "oldSize st = Some (oldW, oldH)"
    and "getSize win = (w, h)"
  shows "(\<bar>oldH - h\<bar> < \<bar>oldW - w\<bar> \<longrightarrow>
            on_resize os_type ASPECT_RATIO st win
              = Inr (st\<lparr>size_aot := \<lparr>size_width = w,
                                      size_height = Math_round (w / (16 / 9))\<rparr>\<rparr>,
                     setSize win w (Math_round (w / (16 / 9)))))
       \<and> (\<bar>oldW - w\<bar> < \<bar>oldH - h\<bar> \<longrightarrow>
            on_resize os_type ASPECT_RATIO st win
              = Inr (st\<lparr>size_aot := \<lparr>size_width = Math_round (h * (16 / 9)),
                                      size_height = h\<rparr>\<rparr>,
                     setSize win (Math_round (h * (16 / 9))) h))"
  using assms
  by (simp add: on_resize_def resize_listener_def ASPECT_RATIO_def)

theorem resize_keeps_aspect_ratio_witness:
  "on_resize ''Linux'' ASPECT_RATIO
      \<lparr>position = \<lparr>pos_x = Undefined, pos_y = Undefined\<rparr>,
       size_aot = \<lparr>size_width = 320, size_height = 180\<rparr>, oldSize = Some (320, 180)\<rparr>
      \<lparr>getSize = (400, 180)\<rparr>
     = Inr (\<lparr>position = \<lparr>pos_x = Undefined, pos_y = Undefined\<rparr>,
             size_aot = \<lparr>size_width = 400, size_height = 225\<rparr>, oldSize = Some (320, 180)\<rparr>,
            \<lparr>getSize = (400, 225)\<rparr>)
   \<and> on_resize ''Linux'' ASPECT_RATIO
      \<lparr>position = \<lparr>pos_x = Undefined, pos_y = Undefined\<rparr>,
       size_aot = \<lparr>size_width = 320, size_height = 180\<rparr>, oldSize = Some (320, 180)\<rparr>
      \<lparr>getSize = (320, 200)\<rparr>
     = Inr (\<lparr>position = \<lparr>pos_x = Undefined, pos_y = Undefined\<rparr>,
             size_aot = \<lparr>size_width = 356, size_height = 200\<rparr>, oldSize = Some (320, 180)\<rparr>,
            \<lparr>getSize = (356, 200)\<rparr>)"
  using resize_keeps_aspect_ratio
      [of "''Linux''"
          "\<lparr>position = \<lparr>pos_x = Undefined, pos_y = Undefined\<rparr>,
            size_aot = \<lparr>size_width = 320, size_height = 180\<rparr>, oldSize = Some (320, 180)\<rparr>"
          320 180 "\<lparr>getSize = (400, 180)\<rparr>" 400 180]
    resize_keeps_aspect_ratio
      [of "''Linux''"
          "\<lparr>position = \<lparr>pos_x = Undefined, pos_y = Undefined\<rparr>,
            size_aot = \<lparr>size_width = 320, size_height = 180\<rparr>, oldSize = Some (320, 180)\<rparr>"
          320 180 "\<lparr>getSize = (320, 200)\<rparr>" 320 200]
  by (simp add: setSize_def Math_round_def)

text \<open>
  C10. When width and height changed by the same amount (no change at all included),
  the width is kept and the height recomputed as \<open>round (w / (16/9))\<close>. More
  generally the width branch is taken whenever the height change is not strictly the
  larger one, so the height branch is taken only when it is.
\<close>

theorem resize_tie_keeps_width:
  assumes "os_type \<noteq> ''Darwin''"
    and "oldSize st = Some (oldW, oldH)"
    and "getSize win = (w, h)"
  shows "(\<bar>oldW - w\<bar> = \<bar>oldH - h\<bar> \<longrightarrow>
            on_resize os_type ASPECT_RATIO st win
              = Inr (st\<lparr>size_aot := \<lparr>size_width = w,
                                      size_height = Math_round (w / (16 / 9))\<rparr>\<rparr>,
                     setSize win w (Math_round (w / (16 / 9)))))
       \<and> (\<not> \<bar>oldW - w\<bar> < \<bar>oldH - h\<bar> \<longrightarrow>
            on_resize os_type ASPECT_RATIO st win
              = Inr (st\<lparr>size_aot := \<lparr>size_width = w,
                                      size_height = Math_round (w / (16 / 9))\<rparr>\<rparr>,
                     setSize win w (Math_round (w / (16 / 9)))))"
  using assms
  by (simp add: on_resize_def resize_listener_def ASPECT_RATIO_def)

theorem resize_tie_keeps_width_witness:
  "on_resize ''Linux'' ASPECT_RATIO
      \<lparr>position = \<lparr>pos_x = Undefined, pos_y = Undefined\<rparr>,
       size_aot = \<lparr>size_width = 320, size_height = 180\<rparr>, oldSize = Some (320, 180)\<rparr>
      \<lparr>getSize = (330, 190)\<rparr>
     = Inr (\<lparr>position = \<lparr>pos_x = Undefined, pos_y = Undefined\<rparr>,
             size_aot = \<lparr>size_width = 330, size_height = 186\<rparr>, oldSize = Some (320, 180)\<rparr>,
            \<lparr>getSize = (330, 186)\<rparr>)
   \<and> on_resize ''Linux'' ASPECT_RATIO
      \<lparr>position = \<lparr>pos_x = Undefined, pos_y = Undefined\<rparr>,
       size_aot = \<lparr>size_width = 320, size_height = 180\<rparr>, oldSize = Some (320, 180)\<rparr>
      \<lparr>getSize = (320, 180)\<rparr>
     = Inr (\<lparr>position = \<lparr>pos_x = Undefined, pos_y = Undefined\<rparr>,
             size_aot = \<lparr>size_width = 320, size_height = 180\<rparr>, oldSize = Some (320, 180)\<rparr>,
            \<lparr>getSize = (320, 180)\<rparr>)"
  using resize_tie_keeps_width
      [of "''Linux''"
          "\<lparr>position = \<lparr>pos_x = Undefined, pos_y = Undefined\<rparr>,
            size_aot = \<lparr>size_width = 320, size_height = 180\<rparr>, oldSize = Some (320, 180)\<rparr>"
          320 180 "\<lparr>getSize = (330, 190)\<rparr>" 330 190]
    resize_tie_keeps_width
      [of "''Linux''"
          "\<lparr>position = \<lparr>pos_x = Undefined, pos_y = Undefined\<rparr>,
            size_aot = \<lparr>size_width = 320, size_height = 180\<rparr>, oldSize = Some (320, 180)\<rparr>"
          320 180 "\<lparr>getSize = (320, 180)\<rparr>" 320 180]
  by (simp add: setSize_def Math_round_def)

text \<open>
  C5. The will-resize listener calls \<open>preventDefault\<close> exactly when the pointer is at
  or beyond both \<open>newX + newWidth - 16\<close> and \<open>newY + newHeight - 16\<close>. The instance
  below is the one of the specification: bounds \<open>{0, 0, 200, 200}\<close>, pointer at
  \<open>(190, 190)\<close>.
\<close>

theorem will_resize_veto:
  assumes "os_type \<noteq> ''Darwin''"
  shows "snd (on_will_resize os_type st win mousePos newBounds)
           = (x mousePos \<ge> x newBounds + width newBounds - 16
              \<and> y mousePos \<ge> y newBounds + height newBounds - 16)"
  using assms
  by (simp add: on_will_resize_def will_resize_listener_def Let_def)

theorem will_resize_veto_witness:
  "snd (on_will_resize ''Linux''
          (initial_state \<lparr>size_width = 320, size_height = 180\<rparr>)
          \<lparr>getSize = (180, 180)\<rparr>
          \<lparr>x = 190, y = 190\<rparr>
          \<lparr>x = 0, y = 0, width = 200, height = 200\<rparr>)
   \<and> (190::real) \<ge> 0 + 200 - 16"
  using will_resize_veto
      [of "''Linux''" "initial_state \<lparr>size_width = 320, size_height = 180\<rparr>"
          "\<lparr>getSize = (180, 180)\<rparr>" "\<lparr>x = 190, y = 190\<rparr>"
          "\<lparr>x = 0, y = 0, width = 200, height = 200\<rparr>"]
  by simp

end
